theory Spec2Isabelle
  imports Complex_Main "HOL-Library.Sublist"
begin

section \<open>Python string operations used by the joiner\<close>

text \<open>
  Links are Python \<open>str\<close> values, modelled as \<open>string\<close>. The only characters the
  code inspects (\<open>/\<close>, \<open>+\<close> and the letters of \<open>joinchat\<close>) are ASCII.

  \<open>s.split(sep)\<close> for a one-character separator: the pieces between the separators,
  always at least one piece (so the branch for an empty list of pieces is never taken).
\<close>

fun str_split :: "string \<Rightarrow> char \<Rightarrow> string list" where
  "str_split [] sep = [[]]"
| "str_split (c # cs) sep =
     (if c = sep then [] # str_split cs sep
      else (case str_split cs sep of
              piece # pieces \<Rightarrow> (c # piece) # pieces
            | [] \<Rightarrow> [[c]]))"

text \<open>
  \<open>s.replace(old, new)\<close>: the non-overlapping occurrences of \<open>old\<close> are replaced from
  the left; with an empty \<open>old\<close> Python puts \<open>new\<close> around every character.
\<close>

function str_replace :: "string \<Rightarrow> string \<Rightarrow> string \<Rightarrow> string" where
  "str_replace [] old new = (if old = [] then new else [])"
| "str_replace (c # cs) old new =
     (if old = [] then new @ c # str_replace cs old new
      else if prefix old (c # cs)
        then new @ str_replace (drop (length old) (c # cs)) old new
      else c # str_replace cs old new)"
  by pat_completeness auto
termination
  by (relation "measure (\<lambda>(s, old, new). length s)") auto

text \<open>\<open>str(n)\<close> for a Python integer: its decimal digits, with a minus sign when negative.\<close>

function str_nat :: "nat \<Rightarrow> string" where
  "str_nat n =
     (if n < 10 then [''0123456789'' ! n]
      else str_nat (n div 10) @ [''0123456789'' ! (n mod 10)])"
  by pat_completeness auto
termination
  by (relation "measure id") auto

declare str_nat.simps [simp del]

definition str_int :: "int \<Rightarrow> string" where
  "str_int i = (if i < 0 then CHR ''-'' # str_nat (nat (- i)) else str_nat (nat i))"

section \<open>Link classification\<close>

text \<open>
  \<open>channel_part = link.split('/')[-1]\<close> (lines 286 and 307). The list that
  \<open>split\<close> returns is never empty, so the index \<open>-1\<close> never raises.
\<close>

definition channel_part_of :: "string \<Rightarrow> string" where
  "channel_part_of link = last (str_split link CHR ''/'')"

text \<open>
  The test \<open>"joinchat" in link or channel_part.startswith('+')\<close>, written out twice in
  the source (lines 289 and 310).
\<close>

definition is_private :: "string \<Rightarrow> bool" where
  "is_private link \<longleftrightarrow> sublist ''joinchat'' link \<or> prefix ''+'' (channel_part_of link)"

text \<open>The hash handed to \<open>ImportChatInviteRequest\<close> (lines 313 to 315).\<close>

definition invite_hash_of :: "string \<Rightarrow> string" where
  "invite_hash_of link =
     (let invite_hash = str_replace (channel_part_of link) ''+'' '''' in
      if sublist ''joinchat'' link then str_replace invite_hash ''joinchat/'' ''''
      else invite_hash)"

section \<open>Data model\<close>

text \<open>The dataclass \<open>JoinResult\<close> (lines 42 to 50). Timestamps are clock readings.\<close>

record JoinResult =
  link :: string
  success :: bool
  error :: "string option"
  group_name :: "string option"
  member_count :: "int option"
  join_time :: "nat option"

text \<open>
  The exceptions of class \<open>Exception\<close> that a call of the Telegram client can raise:
  the five that \<open>join_single_group\<close> names in its handlers, and any other one, kept
  with its text \<open>str(e)\<close>.
\<close>

datatype exn =
    UserAlreadyParticipantError
  | FloodWaitError int
  | InviteHashExpiredError
  | ChannelPrivateError
  | UserBannedInChannelError
  | OtherException string

text \<open>
  The exceptions that escape the functions modelled here: the division by zero of the
  summary, and the \<open>MarkupError\<close> that the console raises on a text whose markup
  it cannot render.
\<close>

datatype py_error = ZeroDivisionError | MarkupError

record entity =
  entity_id :: int
  title :: string

text \<open>The requests sent to the client, and the observable events of a run.\<close>

datatype request =
    GetEntity string
  | GetFullChannelRequest entity
  | ImportChatInviteRequest string
  | JoinChannelRequest string

datatype event = Call request | Sleep real

text \<open>
  The collaborators of the joiner, over a state \<open>'w\<close> of the outside world: the
  client's four operations used here, the clock, the random generator and the
  suspension \<open>asyncio.sleep\<close>, and the console: \<open>markup_error t\<close> says that
  rendering the text \<open>t\<close> as console markup raises \<open>MarkupError\<close> (the markup
  renderer is a library outside the repository). A client operation answers with an exception or a
  reply; a reply without an attribute that the code reads makes Python raise
  \<open>AttributeError\<close>, which is an answer with an exception here. The reply of
  \<open>ImportChatInviteRequest\<close> is the titles of \<open>result.chats\<close>, or \<open>None\<close>
  when the reply has no attribute \<open>chats\<close>. Python floats are modelled as reals.
  Exceptions outside the class \<open>Exception\<close>, such as the cancellation of the task,
  are not modelled.
\<close>

record 'w env =
  client_get_entity :: "string \<Rightarrow> 'w \<Rightarrow> (exn + entity) \<times> 'w"
  client_GetFullChannelRequest :: "entity \<Rightarrow> 'w \<Rightarrow> (exn + int) \<times> 'w"
  client_ImportChatInviteRequest :: "string \<Rightarrow> 'w \<Rightarrow> (exn + string list option) \<times> 'w"
  client_JoinChannelRequest :: "string \<Rightarrow> 'w \<Rightarrow> (exn + unit) \<times> 'w"
  datetime_now :: "'w \<Rightarrow> nat"
  random_random :: "'w \<Rightarrow> real \<times> 'w"
  asyncio_sleep :: "real \<Rightarrow> 'w \<Rightarrow> 'w"
  markup_error :: "string \<Rightarrow> bool"

section \<open>Joining one group\<close>

text \<open>
  The body of the \<open>try\<close> block of \<open>get_group_info\<close> (lines 285 to 294): every
  function returns its value, the new state of the world and the events it caused.
\<close>

definition get_group_info_body ::
  "'w env \<Rightarrow> string \<Rightarrow> 'w \<Rightarrow> (exn + string option \<times> int option) \<times> 'w \<times> event list" where
  "get_group_info_body E l w =
     (let channel_part = channel_part_of l in
      if is_private l then (Inr (None, None), w, [])
      else
        (case client_get_entity E channel_part w of
           (Inl e, w1) \<Rightarrow> (Inl e, w1, [Call (GetEntity channel_part)])
         | (Inr entity, w1) \<Rightarrow>
             (case client_GetFullChannelRequest E entity w1 of
                (Inl e, w2) \<Rightarrow>
                  (Inl e, w2, [Call (GetEntity channel_part), Call (GetFullChannelRequest entity)])
              | (Inr participants_count, w2) \<Rightarrow>
                  (Inr (Some (title entity), Some participants_count), w2,
                   [Call (GetEntity channel_part), Call (GetFullChannelRequest entity)]))))"

text \<open>\<open>get_group_info\<close>: the body under \<open>except Exception: return None, None\<close>.\<close>

definition get_group_info ::
  "'w env \<Rightarrow> string \<Rightarrow> 'w \<Rightarrow> (string option \<times> int option) \<times> 'w \<times> event list" where
  "get_group_info E l w =
     (case get_group_info_body E l w of
        (Inl e, w1, evs) \<Rightarrow> ((None, None), w1, evs)
      | (Inr info, w1, evs) \<Rightarrow> (info, w1, evs))"

text \<open>
  The join request of \<open>join_single_group\<close> (lines 306 to 324). It returns the group
  name after the request: the title of the first chat of an invite's reply when there
  is one, the name found before otherwise.
\<close>

definition join_attempt ::
  "'w env \<Rightarrow> string \<Rightarrow> string option \<Rightarrow> 'w \<Rightarrow> (exn + string option) \<times> 'w \<times> event list" where
  "join_attempt E l gn w =
     (let channel_part = channel_part_of l in
      if is_private l then
        (let invite_hash = invite_hash_of l in
         case client_ImportChatInviteRequest E invite_hash w of
           (Inl e, w1) \<Rightarrow> (Inl e, w1, [Call (ImportChatInviteRequest invite_hash)])
         | (Inr chats, w1) \<Rightarrow>
             (Inr (case chats of Some (t # ts) \<Rightarrow> Some t | _ \<Rightarrow> gn), w1,
              [Call (ImportChatInviteRequest invite_hash)]))
      else
        (case client_JoinChannelRequest E channel_part w of
           (Inl e, w1) \<Rightarrow> (Inl e, w1, [Call (JoinChannelRequest channel_part)])
         | (Inr u, w1) \<Rightarrow> (Inr gn, w1, [Call (JoinChannelRequest channel_part)])))"

text \<open>The \<open>except\<close> clauses of \<open>join_single_group\<close> (lines 336 to 392), in their order.\<close>

fun handle_exception ::
  "exn \<Rightarrow> string \<Rightarrow> string option \<Rightarrow> int option \<Rightarrow> nat \<Rightarrow> JoinResult" where
  "handle_exception UserAlreadyParticipantError l gn mc t =
     \<lparr>link = l, success = True, error = Some ''Already a member'',
      group_name = gn, member_count = mc, join_time = Some t\<rparr>"
| "handle_exception (FloodWaitError secs) l gn mc t =
     \<lparr>link = l, success = False,
      error = Some (''Rate limited. Wait '' @ str_int secs @ '' seconds''),
      group_name = gn, member_count = mc, join_time = Some t\<rparr>"
| "handle_exception InviteHashExpiredError l gn mc t =
     \<lparr>link = l, success = False, error = Some ''Invalid or expired link'',
      group_name = gn, member_count = mc, join_time = Some t\<rparr>"
| "handle_exception ChannelPrivateError l gn mc t =
     \<lparr>link = l, success = False, error = Some ''Invalid or expired link'',
      group_name = gn, member_count = mc, join_time = Some t\<rparr>"
| "handle_exception UserBannedInChannelError l gn mc t =
     \<lparr>link = l, success = False, error = Some ''Banned from this group'',
      group_name = gn, member_count = mc, join_time = Some t\<rparr>"
| "handle_exception (OtherException msg) l gn mc t =
     \<lparr>link = l, success = False, error = Some msg,
      group_name = gn, member_count = mc, join_time = Some t\<rparr>"

definition join_single_group :: "'w env \<Rightarrow> string \<Rightarrow> 'w \<Rightarrow> JoinResult \<times> 'w \<times> event list" where
  "join_single_group E l w =
     (let start_time = datetime_now E w in
      case get_group_info E l w of
        ((gn, mc), w1, evs1) \<Rightarrow>
          (case join_attempt E l gn w1 of
             (Inr gn', w2, evs2) \<Rightarrow>
               (\<lparr>link = l, success = True, error = None, group_name = gn',
                 member_count = mc, join_time = Some start_time\<rparr>, w2, evs1 @ evs2)
           | (Inl e, w2, evs2) \<Rightarrow>
               (handle_exception e l gn mc start_time, w2, evs1 @ evs2)))"

section \<open>The batch run\<close>

text \<open>
  The delay at the head of the loop body of \<open>join_groups_batch\<close> (lines 444 to 454):
  nothing in the first iteration; afterwards \<open>base_interval\<close>, scaled by a factor from
  0.8 when \<open>randomize\<close> is set, and \<open>asyncio.sleep\<close> is given that delay times 60.
\<close>

definition pace :: "'w env \<Rightarrow> real \<Rightarrow> bool \<Rightarrow> nat \<Rightarrow> 'w \<Rightarrow> 'w \<times> event list" where
  "pace E base_interval randomize i w =
     (if i > 0 then
        (case (if randomize
               then (case random_random E w of
                       (r, w') \<Rightarrow> (base_interval * (0.8 + r * 0.4), w'))
               else (base_interval, w)) of
           (delay, w1) \<Rightarrow>
             (let delay_seconds = delay * 60 in
              (asyncio_sleep E delay_seconds w1, [Sleep delay_seconds])))
      else (w, []))"

text \<open>
  The line that the loop prints for a result (lines 465 to 473), a text in console
  markup: the status, the link and the group name when there is one. The two marks
  are written as their UTF-8 bytes. An f-string shows \<open>None\<close> as the text "None",
  and Python takes \<open>None\<close> and the empty string for false.
\<close>

definition check_mark :: string where
  "check_mark = [CHR 0xE2, CHR 0x9C, CHR 0x93]"

definition ballot_x :: string where
  "ballot_x = [CHR 0xE2, CHR 0x9C, CHR 0x97]"

definition str_opt :: "string option \<Rightarrow> string" where
  "str_opt x = (case x of None \<Rightarrow> ''None'' | Some t \<Rightarrow> t)"

definition truthy :: "string option \<Rightarrow> bool" where
  "truthy x \<longleftrightarrow> x \<noteq> None \<and> x \<noteq> Some []"

definition result_line :: "JoinResult \<Rightarrow> string \<Rightarrow> string" where
  "result_line result l =
     (let status =
            (if success result
             then ''[green]'' @ check_mark @ ''[/green]'' @
                  (if truthy (error result)
                   then '' ([yellow]'' @ str_opt (error result) @ ''[/yellow])''
                   else [])
             else ''[red]'' @ ballot_x @ '' '' @ str_opt (error result) @ ''[/red]'');
          group_info =
            (if truthy (group_name result) then '' - '' @ str_opt (group_name result)
             else [])
      in status @ '' '' @ l @ group_info)"

text \<open>
  The progress display is built with the column
  \<open>TextColumn("[progress.description]{task.description}")\<close> (line 434), and
  \<open>progress.update\<close> only stores the new description. On a terminal, \<open>console.print\<close>
  renders the line it is given and, below it, the live progress display with the
  current description: it raises \<open>MarkupError\<close> when either text cannot be rendered.
  Nothing in \<open>join_groups_batch\<close> catches that exception.
\<close>

definition progress_text :: "string \<Rightarrow> string" where
  "progress_text description = ''[progress.description]'' @ description"

text \<open>The description that the loop sets before joining a link (line 457).\<close>

definition joining :: "string \<Rightarrow> string" where
  "joining l = ''Joining: '' @ l"

definition console_print_raises :: "'w env \<Rightarrow> string \<Rightarrow> string \<Rightarrow> bool" where
  "console_print_raises E description line \<longleftrightarrow>
     markup_error E line \<or> markup_error E (progress_text description)"

text \<open>
  The loop \<open>for i, link in enumerate(links)\<close> (lines 442 to 473): the state is the
  list of results so far, the world and the events so far. When the print at the end
  of an iteration raises, the exception leaves \<open>join_groups_batch\<close>: the results are
  not returned, while the world and the events are what they have become.
\<close>

fun batch_loop ::
  "'w env \<Rightarrow> real \<Rightarrow> bool \<Rightarrow> nat \<Rightarrow> string list \<Rightarrow>
   JoinResult list \<times> 'w \<times> event list \<Rightarrow> (py_error + JoinResult list) \<times> 'w \<times> event list" where
  "batch_loop E base_interval randomize i [] (results, w, evs) = (Inr results, w, evs)"
| "batch_loop E base_interval randomize i (l # links) (results, w, evs) =
     (case pace E base_interval randomize i w of
        (w1, evs1) \<Rightarrow>
          (case join_single_group E l w1 of
             (result, w2, evs2) \<Rightarrow>
               if console_print_raises E (joining l) (result_line result l)
               then (Inl MarkupError, w2, evs @ evs1 @ evs2)
               else batch_loop E base_interval randomize (Suc i) links
                      (results @ [result], w2, evs @ evs1 @ evs2)))"

definition join_groups_batch ::
  "'w env \<Rightarrow> string list \<Rightarrow> real \<Rightarrow> bool \<Rightarrow> 'w \<Rightarrow>
   (py_error + JoinResult list) \<times> 'w \<times> event list" where
  "join_groups_batch E links base_interval randomize w =
     batch_loop E base_interval randomize 0 links ([], w, [])"

text \<open>
  Reading a run's events: for each join request, in order, the durations slept since
  the join request before it (since the start, for the first one).
\<close>

fun is_join_request :: "request \<Rightarrow> bool" where
  "is_join_request (ImportChatInviteRequest h) = True"
| "is_join_request (JoinChannelRequest c) = True"
| "is_join_request (GetEntity c) = False"
| "is_join_request (GetFullChannelRequest e) = False"

fun waits_from :: "real list \<Rightarrow> event list \<Rightarrow> real list list" where
  "waits_from acc [] = []"
| "waits_from acc (Sleep d # evs) = waits_from (acc @ [d]) evs"
| "waits_from acc (Call r # evs) =
     (if is_join_request r then acc # waits_from [] evs else waits_from acc evs)"

definition attempt_waits :: "event list \<Rightarrow> real list list" where
  "attempt_waits evs = waits_from [] evs"

section \<open>The summary of a run\<close>

text \<open>
  \<open>display_results_summary\<close> (lines 477 to 498): the three rows of the table and
  the list of failed attempts. The percentages are kept as numbers, before they are
  formatted; the division by \<open>len(results)\<close> raises when the list is empty. The
  table is printed before the lines of the failed attempts; the printing of those
  lines is not modelled.
\<close>

record summary =
  successful :: int
  failed :: int
  total :: int
  successful_percentage :: real
  failed_percentage :: real
  failed_results :: "(string \<times> string option) list"

definition display_results_summary :: "JoinResult list \<Rightarrow> py_error + summary" where
  "display_results_summary results =
     (let successful = int (length (filter success results));
          failed = int (length results) - successful
      in if length results = 0 then Inl ZeroDivisionError
         else Inr \<lparr>successful = successful, failed = failed,
                   total = int (length results),
                   successful_percentage = real_of_int successful / real (length results) * 100,
                   failed_percentage = real_of_int failed / real (length results) * 100,
                   failed_results =
                     map (\<lambda>r. (link r, error r)) (filter (\<lambda>r. \<not> success r) results)\<rparr>)"

section \<open>A scripted client and console for examples\<close>

text \<open>
  The console of the examples follows the tag matching of the markup renderer. A tag
  is an opening bracket, one of the characters \<open>a\<close> to \<open>z\<close>, \<open>#\<close>, \<open>/\<close>, \<open>@\<close>,
  then any text without an opening bracket up to the first closing bracket; an odd
  number of backslashes before it makes it plain text. The scanner reads the text once
  and returns the tags in order.
\<close>

datatype scan = Outside bool | Opened bool | Inside bool string bool

definition backslash :: char where
  "backslash = CHR 0x5C"

definition tag_start :: "char \<Rightarrow> bool" where
  "tag_start c \<longleftrightarrow> c \<in> set ''abcdefghijklmnopqrstuvwxyz#/@''"

fun markup_tags :: "scan \<Rightarrow> string \<Rightarrow> string list" where
  "markup_tags st [] = []"
| "markup_tags (Outside esc) (c # cs) =
     (if c = backslash then markup_tags (Outside (\<not> esc)) cs
      else if c = CHR ''['' then markup_tags (Opened esc) cs
      else markup_tags (Outside False) cs)"
| "markup_tags (Opened esc) (c # cs) =
     (if tag_start c then markup_tags (Inside esc [c] False) cs
      else if c = CHR ''['' then markup_tags (Opened False) cs
      else if c = backslash then markup_tags (Outside True) cs
      else markup_tags (Outside False) cs)"
| "markup_tags (Inside esc acc bs) (c # cs) =
     (if c = CHR '']''
      then (if esc then markup_tags (Outside False) cs
            else acc # markup_tags (Outside False) cs)
      else if c = CHR ''['' then markup_tags (Opened bs) cs
      else markup_tags (Inside esc (acc @ [c]) (if c = backslash then \<not> bs else False)) cs)"

text \<open>
  The name of a tag is its text before the first \<open>=\<close>. A tag whose name starts with
  \<open>/\<close> closes the last open tag of that name, or the last open tag when no name is
  given, and is an error when there is none; any other tag is opened. Names are
  compared as written, spaces at both ends apart (the renderer also identifies the
  spellings of one style).
\<close>

definition strip_spaces :: "string \<Rightarrow> string" where
  "strip_spaces t =
     rev (dropWhile (\<lambda>c. c = CHR '' '') (rev (dropWhile (\<lambda>c. c = CHR '' '') t)))"

fun unmatched_closing :: "string list \<Rightarrow> string list \<Rightarrow> bool" where
  "unmatched_closing style_stack [] = False"
| "unmatched_closing style_stack (t # ts) =
     (let name = takeWhile (\<lambda>c. c \<noteq> CHR ''='') t in
      if prefix ''/'' name then
        (let style_name = strip_spaces (tl name) in
         if style_name \<noteq> [] then
           (if style_name \<in> set style_stack
            then unmatched_closing (remove1 style_name style_stack) ts
            else True)
         else (case style_stack of
                 [] \<Rightarrow> True
               | newest # older \<Rightarrow> unmatched_closing older ts))
      else unmatched_closing (strip_spaces name # style_stack) ts)"

definition example_markup_error :: "string \<Rightarrow> bool" where
  "example_markup_error t \<longleftrightarrow> unmatched_closing [] (markup_tags (Outside False) t)"

text \<open>
  A world that counts the calls made so far, with a client whose answers are fixed:
  the public group \<open>alpha\<close> is known but joining it is rate limited, the group
  \<open>delta\<close> is known but its full description is refused, the account is already in
  \<open>gamma\<close>, the invite \<open>beta\<close> is valid, and joining \<open>x\<close> fails with an error
  whose text holds a closing tag.
\<close>

definition example_env :: "nat env" where
  "example_env =
     \<lparr>client_get_entity = (\<lambda>c w.
        (if c = ''alpha'' then Inr \<lparr>entity_id = 1, title = ''Alpha''\<rparr>
         else if c = ''delta'' then Inr \<lparr>entity_id = 2, title = ''Delta''\<rparr>
         else Inl (OtherException ''not found''), Suc w)),
      client_GetFullChannelRequest = (\<lambda>e w.
        (if entity_id e = 2 then Inl ChannelPrivateError else Inr 42, Suc w)),
      client_ImportChatInviteRequest = (\<lambda>h w.
        (if h = ''beta'' then Inr (Some [''Beta'']) else Inl InviteHashExpiredError, Suc w)),
      client_JoinChannelRequest = (\<lambda>c w.
        (if c = ''alpha'' then Inl (FloodWaitError 1000)
         else if c = ''gamma'' then Inl UserAlreadyParticipantError
         else if c = ''x'' then Inl (OtherException ''bad [/peer] id'')
         else Inr (), Suc w)),
      datetime_now = (\<lambda>w. w),
      random_random = (\<lambda>w. (1 / 2, w)),
      asyncio_sleep = (\<lambda>d w. Suc w),
      markup_error = example_markup_error\<rparr>"

section \<open>Facts about the string operations\<close>

lemma str_split_nonempty: "str_split s sep \<noteq> []"
  by (induction s) (auto split: list.splits)

lemma str_split_no_sep: "sep \<notin> set s \<Longrightarrow> str_split s sep = [s]"
  by (induction s) auto

lemma tl_str_split_empty: "tl (str_split s sep) = [] \<longleftrightarrow> sep \<notin> set s"
  using str_split_nonempty [of _ sep]
  by (induction s) (auto split: list.splits)

lemma last_str_split_Cons:
  "last (str_split (c # cs) sep) =
     (if sep \<in> set cs then last (str_split cs sep)
      else if c = sep then cs else c # cs)"
proof (cases "sep \<in> set cs")
  case True
  then have "tl (str_split cs sep) \<noteq> []"
    by (simp add: tl_str_split_empty)
  then show ?thesis
    using True str_split_nonempty [of cs sep]
    by (cases "str_split cs sep") auto
next
  case False
  then show ?thesis
    by (simp add: str_split_no_sep)
qed

lemma last_str_split_no_sep: "sep \<notin> set (last (str_split s sep))"
proof (induction s)
  case Nil
  then show ?case by simp
next
  case (Cons c cs)
  then show ?case
    unfolding last_str_split_Cons by auto
qed

lemma last_str_split_suffix:
  "\<exists>p. s = p @ last (str_split s sep) \<and> (p = [] \<or> last p = sep)"
proof (induction s)
  case Nil
  then show ?case by simp
next
  case (Cons c cs)
  show ?case
  proof (cases "sep \<in> set cs")
    case True
    from Cons obtain p where p: "cs = p @ last (str_split cs sep)" "p = [] \<or> last p = sep"
      by blast
    from True last_str_split_no_sep [of sep cs] p(1) have "p \<noteq> []"
      by auto
    with p have "c # cs = (c # p) @ last (str_split cs sep) \<and> last (c # p) = sep"
      by auto
    moreover have "last (str_split (c # cs) sep) = last (str_split cs sep)"
      unfolding last_str_split_Cons using True by simp
    ultimately show ?thesis
      by (intro exI [of _ "c # p"]) simp
  next
    case False
    show ?thesis
    proof (cases "c = sep")
      case True
      have "last (str_split (c # cs) sep) = cs"
        unfolding last_str_split_Cons using False True by simp
      then show ?thesis
        using True by (intro exI [of _ "[c]"]) simp
    next
      case neq: False
      then show ?thesis
        unfolding last_str_split_Cons using False by simp
    qed
  qed
qed

lemma str_replace_char:
  "str_replace s [c] [] = filter (\<lambda>x. x \<noteq> c) s"
  by (induction s) auto

lemma str_replace_absent:
  "old \<noteq> [] \<Longrightarrow> \<not> set old \<subseteq> set s \<Longrightarrow> str_replace s old new = s"
proof (induction s)
  case Nil
  then show ?case by simp
next
  case (Cons c cs)
  from Cons.prems(2) have np: "\<not> prefix old (c # cs)"
    using set_mono_prefix [of old "c # cs"] by blast
  from Cons.prems(2) have "\<not> set old \<subseteq> set cs"
    by auto
  with Cons.IH Cons.prems(1) have "str_replace cs old new = cs"
    by simp
  with np Cons.prems(1) show ?case
    by simp
qed

section \<open>Facts about classification\<close>

lemma is_private_iff:
  "is_private l \<longleftrightarrow>
     (\<exists>p q. l = p @ ''joinchat'' @ q) \<or> (\<exists>t. channel_part_of l = CHR ''+'' # t)"
  unfolding is_private_def sublist_def prefix_def by auto

lemma channel_part_no_slash: "CHR ''/'' \<notin> set (channel_part_of l)"
  unfolding channel_part_of_def by (rule last_str_split_no_sep)

lemma channel_part_suffix:
  "\<exists>p. l = p @ channel_part_of l \<and> (p = [] \<or> last p = CHR ''/'')"
  unfolding channel_part_of_def by (rule last_str_split_suffix)

lemma join_attempt_events:
  "snd (snd (join_attempt E l gn w)) =
     [Call (if is_private l then ImportChatInviteRequest (invite_hash_of l)
            else JoinChannelRequest (channel_part_of l))]"
  unfolding join_attempt_def Let_def
  by (simp split: prod.splits sum.splits)

lemma invite_hash_filter:
  "invite_hash_of l = filter (\<lambda>c. c \<noteq> CHR ''+'') (channel_part_of l)"
proof -
  let ?h = "filter (\<lambda>c. c \<noteq> CHR ''+'') (channel_part_of l)"
  have "CHR ''/'' \<notin> set ?h"
    using channel_part_no_slash [of l] by simp
  then have "\<not> set ''joinchat/'' \<subseteq> set ?h"
    by auto
  then have "str_replace ?h ''joinchat/'' '''' = ?h"
    by (intro str_replace_absent) simp_all
  then show ?thesis
    unfolding invite_hash_of_def Let_def str_replace_char by simp
qed

section \<open>Facts about joining one group\<close>

lemma link_handle_exception [simp]: "link (handle_exception e l gn mc t) = l"
  by (cases e) simp_all

lemma link_join_single_group [simp]: "link (fst (join_single_group E l w)) = l"
  unfolding join_single_group_def Let_def
  by (simp split: prod.splits sum.splits)

section \<open>Facts about the events of a run\<close>

lemma waits_from_skip:
  "\<forall>e\<in>set evs. \<exists>r. e = Call r \<and> \<not> is_join_request r \<Longrightarrow>
   waits_from acc (evs @ rest) = waits_from acc rest"
  by (induction evs) auto

lemma get_group_info_events:
  "\<forall>e\<in>set (snd (snd (get_group_info E l w))). \<exists>r. e = Call r \<and> \<not> is_join_request r"
  unfolding get_group_info_def get_group_info_body_def Let_def
  by (simp split: prod.splits sum.splits)

lemma join_single_group_events:
  "snd (snd (join_single_group E l w)) =
     snd (snd (get_group_info E l w)) @
     [Call (if is_private l then ImportChatInviteRequest (invite_hash_of l)
            else JoinChannelRequest (channel_part_of l))]"
proof -
  obtain gn mc w1 evs1 where g: "get_group_info E l w = ((gn, mc), w1, evs1)"
    by (cases "get_group_info E l w") auto
  obtain x w2 evs2 where a: "join_attempt E l gn w1 = (x, w2, evs2)"
    by (cases "join_attempt E l gn w1")
  from a join_attempt_events [of E l gn w1]
  have "evs2 = [Call (if is_private l then ImportChatInviteRequest (invite_hash_of l)
            else JoinChannelRequest (channel_part_of l))]"
    by simp
  then show ?thesis
    unfolding join_single_group_def Let_def
    by (simp add: g a split: sum.splits)
qed

lemma waits_join_single_group:
  "waits_from acc (snd (snd (join_single_group E l w)) @ rest) = acc # waits_from [] rest"
  unfolding join_single_group_events
  using waits_from_skip [OF get_group_info_events, of acc E l w]
  by simp

lemma pace_first: "pace E b r 0 w = (w, [])"
  by (simp add: pace_def)

lemma pace_fixed: "0 < i \<Longrightarrow> snd (pace E b False i w) = [Sleep (b * 60)]"
  by (simp add: pace_def Let_def)

lemma pace_random:
  "0 < i \<Longrightarrow>
   snd (pace E b True i w) = [Sleep (b * (0.8 + fst (random_random E w) * 0.4) * 60)]"
  by (simp add: pace_def Let_def split: prod.splits)

section \<open>Facts about the batch loop\<close>

lemma batch_loop_acc:
  "batch_loop E b r i ls (results, w, evs) =
     (case batch_loop E b r i ls ([], w, []) of
        (x, w', evs') \<Rightarrow> (map_sum id ((@) results) x, w', evs @ evs'))"
proof (induction ls arbitrary: i results w evs)
  case Nil
  then show ?case by simp
next
  case (Cons l ls)
  obtain w1 evs1 where p: "pace E b r i w = (w1, evs1)"
    by (cases "pace E b r i w")
  obtain res w2 evs2 where j: "join_single_group E l w1 = (res, w2, evs2)"
    by (cases "join_single_group E l w1")
  show ?case
  proof (cases "console_print_raises E (joining l) (result_line res l)")
    case True
    then show ?thesis
      by (simp add: p j)
  next
    case False
    obtain x w' evs' where rec: "batch_loop E b r (Suc i) ls ([], w2, []) = (x, w', evs')"
      by (cases "batch_loop E b r (Suc i) ls ([], w2, [])")
    show ?thesis
      using Cons.IH [of "Suc i" "results @ [res]" w2 "evs @ evs1 @ evs2"]
        Cons.IH [of "Suc i" "[res]" w2 "evs1 @ evs2"]
      by (cases x) (simp_all add: p j False rec)
  qed
qed

lemma batch_loop_Cons:
  "batch_loop E b r i (l # ls) ([], w, []) =
     (case pace E b r i w of
        (w1, evs1) \<Rightarrow>
          (case join_single_group E l w1 of
             (res, w2, evs2) \<Rightarrow>
               if console_print_raises E (joining l) (result_line res l)
               then (Inl MarkupError, w2, evs1 @ evs2)
               else (case batch_loop E b r (Suc i) ls ([], w2, []) of
                       (x, w', evs') \<Rightarrow>
                         (map_sum id ((#) res) x, w', evs1 @ evs2 @ evs'))))"
proof -
  obtain w1 evs1 where p: "pace E b r i w = (w1, evs1)"
    by (cases "pace E b r i w")
  obtain res w2 evs2 where j: "join_single_group E l w1 = (res, w2, evs2)"
    by (cases "join_single_group E l w1")
  obtain x w' evs' where rec: "batch_loop E b r (Suc i) ls ([], w2, []) = (x, w', evs')"
    by (cases "batch_loop E b r (Suc i) ls ([], w2, [])")
  show ?thesis
    using batch_loop_acc [of E b r "Suc i" ls "[res]" w2 "evs1 @ evs2"]
    by (cases x) (simp_all add: p j rec)
qed

lemma batch_results_Cons:
  assumes "fst (batch_loop E b r i (l # ls) ([], w, [])) = Inr rs"
  shows "\<not> console_print_raises E (joining l)
            (result_line (fst (join_single_group E l (fst (pace E b r i w)))) l) \<and>
         (\<exists>rs'. rs = fst (join_single_group E l (fst (pace E b r i w))) # rs' \<and>
            fst (batch_loop E b r (Suc i) ls
              ([], fst (snd (join_single_group E l (fst (pace E b r i w)))), [])) = Inr rs')"
proof -
  obtain w1 evs1 where p: "pace E b r i w = (w1, evs1)"
    by (cases "pace E b r i w")
  obtain res w2 evs2 where j: "join_single_group E l w1 = (res, w2, evs2)"
    by (cases "join_single_group E l w1")
  obtain x w' evs' where rec: "batch_loop E b r (Suc i) ls ([], w2, []) = (x, w', evs')"
    by (cases "batch_loop E b r (Suc i) ls ([], w2, [])")
  from assms show ?thesis
    unfolding batch_loop_Cons
    by (cases x) (auto simp: p j rec split: if_splits)
qed

lemma batch_loop_links:
  "fst (batch_loop E b r i ls ([], w, [])) = Inr rs \<Longrightarrow> map link rs = ls"
proof (induction ls arbitrary: i w rs)
  case Nil
  then show ?case by simp
next
  case (Cons l ls)
  from batch_results_Cons [OF Cons.prems] obtain rs' where
    rs: "rs = fst (join_single_group E l (fst (pace E b r i w))) # rs'" and
    rec: "fst (batch_loop E b r (Suc i) ls
              ([], fst (snd (join_single_group E l (fst (pace E b r i w)))), [])) = Inr rs'"
    by blast
  from Cons.IH [OF rec] show ?case
    unfolding rs by simp
qed

lemma batch_results_nth:
  "fst (batch_loop E b r i ls ([], w, [])) = Inr rs \<Longrightarrow> k < length ls \<Longrightarrow>
   \<exists>w'. rs ! k = fst (join_single_group E (ls ! k) w')"
proof (induction ls arbitrary: i k w rs)
  case Nil
  then show ?case by simp
next
  case (Cons l ls)
  from batch_results_Cons [OF Cons.prems(1)] obtain rs' where
    rs: "rs = fst (join_single_group E l (fst (pace E b r i w))) # rs'" and
    rec: "fst (batch_loop E b r (Suc i) ls
              ([], fst (snd (join_single_group E l (fst (pace E b r i w)))), [])) = Inr rs'"
    by blast
  show ?case
  proof (cases k)
    case 0
    then show ?thesis
      unfolding rs by auto
  next
    case (Suc k')
    with Cons.prems(2) have "k' < length ls"
      by simp
    from Cons.IH [OF rec this] show ?thesis
      unfolding rs Suc by simp
  qed
qed

lemma batch_loop_completes:
  "\<forall>l\<in>set ls. \<forall>w0. \<not> console_print_raises E (joining l)
      (result_line (fst (join_single_group E l w0)) l) \<Longrightarrow>
   \<exists>rs. fst (batch_loop E b r i ls ([], w, [])) = Inr rs"
proof (induction ls arbitrary: i w)
  case Nil
  then show ?case by simp
next
  case (Cons l ls)
  obtain w1 evs1 where p: "pace E b r i w = (w1, evs1)"
    by (cases "pace E b r i w")
  obtain res w2 evs2 where j: "join_single_group E l w1 = (res, w2, evs2)"
    by (cases "join_single_group E l w1")
  from Cons.prems have ok: "\<not> console_print_raises E (joining l) (result_line res l)"
    using j by (metis fst_conv list.set_intros(1))
  from Cons.prems have "\<forall>l\<in>set ls. \<forall>w0. \<not> console_print_raises E (joining l)
      (result_line (fst (join_single_group E l w0)) l)"
    by simp
  from Cons.IH [OF this, of "Suc i" w2] obtain rs' where
    "fst (batch_loop E b r (Suc i) ls ([], w2, [])) = Inr rs'"
    by blast
  then show ?case
    unfolding batch_loop_Cons
    by (cases "batch_loop E b r (Suc i) ls ([], w2, [])") (simp add: p j ok)
qed

section \<open>Facts about the waits of a run\<close>

lemma waits_batch_head:
  "waits_from acc (snd (snd (batch_loop E b r i (l # ls) ([], w, [])))) =
     (acc @ (if i = 0 then []
             else [(if r then b * (0.8 + fst (random_random E w) * 0.4) else b) * 60])) #
     (if console_print_raises E (joining l)
           (result_line (fst (join_single_group E l (fst (pace E b r i w)))) l)
      then []
      else waits_from []
       (snd (snd (batch_loop E b r (Suc i) ls
          ([], fst (snd (join_single_group E l (fst (pace E b r i w)))), [])))))"
proof -
  obtain w1 evs1 where p: "pace E b r i w = (w1, evs1)"
    by (cases "pace E b r i w")
  obtain res w2 evs2 where j: "join_single_group E l w1 = (res, w2, evs2)"
    by (cases "join_single_group E l w1")
  obtain x w' evs' where rec: "batch_loop E b r (Suc i) ls ([], w2, []) = (x, w', evs')"
    by (cases "batch_loop E b r (Suc i) ls ([], w2, [])")
  have e: "evs2 = snd (snd (join_single_group E l w1))"
    by (simp add: j)
  have evs1: "evs1 = (if i = 0 then []
      else [Sleep ((if r then b * (0.8 + fst (random_random E w) * 0.4) else b) * 60)])"
    using p pace_first [of E b r w] pace_fixed [of i E b w] pace_random [of i E b w]
    by (cases "i = 0"; cases r) auto
  have w: "waits_from acc (evs1 @ evs2 @ rest) =
     (acc @ (if i = 0 then []
             else [(if r then b * (0.8 + fst (random_random E w) * 0.4) else b) * 60])) #
     waits_from [] rest" for rest
    unfolding evs1 e by (simp add: waits_join_single_group)
  show ?thesis
    unfolding batch_loop_Cons
    using w [of evs'] w [of "[]"] by (simp add: p j rec)
qed

lemma waits_batch_complete:
  "fst (batch_loop E b r i ls ([], w, [])) = Inr rs \<Longrightarrow>
   length (waits_from acc (snd (snd (batch_loop E b r i ls ([], w, []))))) = length ls"
proof (induction ls arbitrary: acc i w rs)
  case Nil
  then show ?case by simp
next
  case (Cons l ls)
  from batch_results_Cons [OF Cons.prems] obtain rs' where
    ok: "\<not> console_print_raises E (joining l)
            (result_line (fst (join_single_group E l (fst (pace E b r i w)))) l)" and
    rec: "fst (batch_loop E b r (Suc i) ls
              ([], fst (snd (join_single_group E l (fst (pace E b r i w)))), [])) = Inr rs'"
    by blast
  show ?case
    unfolding waits_batch_head using Cons.IH [OF rec, of "[]"] ok by simp
qed

lemma waits_batch_length: 
  "length (waits_from acc (snd (snd (batch_loop E b r i ls ([], w, []))))) \<le> length ls"
proof (induction ls arbitrary: acc i w)
  case Nil
  then show ?case by simp
next
  case (Cons l ls)
  show ?case
    unfolding waits_batch_head using Cons.IH [of "[]" "Suc i"] by simp
qed

lemma waits_batch_later:
  "0 < i \<Longrightarrow> k < length (waits_from [] (snd (snd (batch_loop E b r i ls ([], w, []))))) \<Longrightarrow>
   \<exists>w'. waits_from [] (snd (snd (batch_loop E b r i ls ([], w, [])))) ! k =
     [(if r then b * (0.8 + fst (random_random E w') * 0.4) else b) * 60]"
proof (induction ls arbitrary: i k w)
  case Nil
  then show ?case by simp
next
  case (Cons l ls)
  show ?case
  proof (cases k)
    case 0
    with Cons.prems(1) show ?thesis
      unfolding waits_batch_head by auto
  next
    case (Suc k')
    let ?w2 = "fst (snd (join_single_group E l (fst (pace E b r i w))))"
    from Cons.prems(2) have
      ok: "\<not> console_print_raises E (joining l)
            (result_line (fst (join_single_group E l (fst (pace E b r i w)))) l)"
      unfolding waits_batch_head Suc by (auto split: if_splits)
    with Cons.prems(2) have
      "k' < length (waits_from [] (snd (snd (batch_loop E b r (Suc i) ls ([], ?w2, [])))))"
      unfolding waits_batch_head Suc by simp
    from Cons.IH [OF _ this] show ?thesis
      unfolding waits_batch_head Suc using ok by simp
  qed
qed

section \<open>The scripted client on concrete links\<close>

lemma example_sleep: "asyncio_sleep example_env d w = Suc w"
  by (simp add: example_env_def)

lemma example_now: "datetime_now example_env w = w"
  by (simp add: example_env_def)

lemma example_random: "random_random example_env w = (1 / 2, w)"
  by (simp add: example_env_def)

lemma alpha_part: "channel_part_of ''https://t.me/alpha'' = ''alpha''"
  by (simp add: channel_part_of_def)

lemma alpha_public: "\<not> is_private ''https://t.me/alpha''"
  unfolding is_private_def alpha_part by code_simp

lemma gamma_part: "channel_part_of ''https://t.me/gamma'' = ''gamma''"
  by (simp add: channel_part_of_def)

lemma gamma_public: "\<not> is_private ''https://t.me/gamma''"
  unfolding is_private_def gamma_part by code_simp

lemma delta_part: "channel_part_of ''https://t.me/delta'' = ''delta''"
  by (simp add: channel_part_of_def)

lemma delta_public: "\<not> is_private ''https://t.me/delta''"
  unfolding is_private_def delta_part by code_simp

lemma beta_part: "channel_part_of ''https://t.me/+beta'' = ''+beta''"
  by (simp add: channel_part_of_def)

lemma beta_private: "is_private ''https://t.me/+beta''"
  unfolding is_private_def beta_part by simp

lemma beta_hash: "invite_hash_of ''https://t.me/+beta'' = ''beta''"
  unfolding invite_hash_filter beta_part by simp

lemma str_int_1000: "str_int 1000 = ''1000''"
  by code_simp

lemma alpha_info:
  "get_group_info example_env ''https://t.me/alpha'' w =
     ((Some ''Alpha'', Some 42), Suc (Suc w),
      [Call (GetEntity ''alpha''),
       Call (GetFullChannelRequest \<lparr>entity_id = 1, title = ''Alpha''\<rparr>)])"
  unfolding get_group_info_def get_group_info_body_def
  by (simp add: alpha_part alpha_public example_env_def)

lemma alpha_attempt:
  "join_attempt example_env ''https://t.me/alpha'' gn w =
     (Inl (FloodWaitError 1000), Suc w, [Call (JoinChannelRequest ''alpha'')])"
  unfolding join_attempt_def
  by (simp add: alpha_part alpha_public example_env_def)

lemma alpha_join:
  "join_single_group example_env ''https://t.me/alpha'' w =
     (\<lparr>link = ''https://t.me/alpha'', success = False,
       error = Some ''Rate limited. Wait 1000 seconds'',
       group_name = Some ''Alpha'', member_count = Some 42, join_time = Some w\<rparr>,
      Suc (Suc (Suc w)),
      [Call (GetEntity ''alpha''),
       Call (GetFullChannelRequest \<lparr>entity_id = 1, title = ''Alpha''\<rparr>),
       Call (JoinChannelRequest ''alpha'')])"
  unfolding join_single_group_def
  by (simp add: alpha_info alpha_attempt str_int_1000 example_now)

lemma beta_join:
  "join_single_group example_env ''https://t.me/+beta'' w =
     (\<lparr>link = ''https://t.me/+beta'', success = True, error = None,
       group_name = Some ''Beta'', member_count = None, join_time = Some w\<rparr>,
      Suc w, [Call (ImportChatInviteRequest ''beta'')])"
  unfolding join_single_group_def get_group_info_def get_group_info_body_def join_attempt_def
  by (simp add: beta_part beta_private beta_hash example_env_def)

lemma gamma_info:
  "get_group_info example_env ''https://t.me/gamma'' w =
     ((None, None), Suc w, [Call (GetEntity ''gamma'')])"
  unfolding get_group_info_def get_group_info_body_def
  by (simp add: gamma_part gamma_public example_env_def)

lemma gamma_attempt:
  "join_attempt example_env ''https://t.me/gamma'' gn w =
     (Inl UserAlreadyParticipantError, Suc w, [Call (JoinChannelRequest ''gamma'')])"
  unfolding join_attempt_def
  by (simp add: gamma_part gamma_public example_env_def)

lemma beta_info:
  "get_group_info example_env ''https://t.me/+beta'' w = ((None, None), w, [])"
  unfolding get_group_info_def get_group_info_body_def
  by (simp add: beta_private)

lemma delta_entity:
  "client_get_entity example_env ''delta'' w = (Inr \<lparr>entity_id = 2, title = ''Delta''\<rparr>, Suc w)"
  by (simp add: example_env_def)

lemma delta_full:
  "client_GetFullChannelRequest example_env \<lparr>entity_id = 2, title = ''Delta''\<rparr> w =
     (Inl ChannelPrivateError, Suc w)"
  by (simp add: example_env_def)

lemma gamma_request:
  "client_JoinChannelRequest example_env ''gamma'' w = (Inl UserAlreadyParticipantError, Suc w)"
  by (simp add: example_env_def)

lemma gamma_entity:
  "client_get_entity example_env ''gamma'' w = (Inl (OtherException ''not found''), Suc w)"
  by (simp add: example_env_def)

lemma example_markup: "markup_error example_env t = example_markup_error t"
  by (simp add: example_env_def)

lemma alpha_line:
  "result_line
     \<lparr>link = ''https://t.me/alpha'', success = False,
      error = Some ''Rate limited. Wait 1000 seconds'',
      group_name = Some ''Alpha'', member_count = Some 42, join_time = t\<rparr>
     ''https://t.me/alpha'' =
   ''[red]'' @ ballot_x @ '' Rate limited. Wait 1000 seconds[/red] https://t.me/alpha - Alpha''"
  by (simp add: result_line_def truthy_def str_opt_def)

lemma alpha_line_rendered:
  "\<not> example_markup_error
     (''[red]'' @ ballot_x @ '' Rate limited. Wait 1000 seconds[/red] https://t.me/alpha - Alpha'')"
  by code_simp

lemma alpha_progress_rendered:
  "\<not> example_markup_error (progress_text (joining ''https://t.me/alpha''))"
  by code_simp

lemma alpha_shown:
  "\<not> console_print_raises example_env (joining ''https://t.me/alpha'')
     (result_line
       \<lparr>link = ''https://t.me/alpha'', success = False,
        error = Some ''Rate limited. Wait 1000 seconds'',
        group_name = Some ''Alpha'', member_count = Some 42, join_time = t\<rparr>
       ''https://t.me/alpha'')"
  unfolding console_print_raises_def example_markup alpha_line
  using alpha_line_rendered alpha_progress_rendered by simp

lemma beta_line:
  "result_line
     \<lparr>link = ''https://t.me/+beta'', success = True, error = None,
      group_name = Some ''Beta'', member_count = None, join_time = t\<rparr>
     ''https://t.me/+beta'' =
   ''[green]'' @ check_mark @ ''[/green] https://t.me/+beta - Beta''"
  by (simp add: result_line_def truthy_def str_opt_def)

lemma beta_line_rendered:
  "\<not> example_markup_error (''[green]'' @ check_mark @ ''[/green] https://t.me/+beta - Beta'')"
  by code_simp

lemma beta_progress_rendered:
  "\<not> example_markup_error (progress_text (joining ''https://t.me/+beta''))"
  by code_simp

lemma beta_shown:
  "\<not> console_print_raises example_env (joining ''https://t.me/+beta'')
     (result_line
       \<lparr>link = ''https://t.me/+beta'', success = True, error = None,
        group_name = Some ''Beta'', member_count = None, join_time = t\<rparr>
       ''https://t.me/+beta'')"
  unfolding console_print_raises_def example_markup beta_line
  using beta_line_rendered beta_progress_rendered by simp

lemma example_run:
  "join_groups_batch example_env [''https://t.me/alpha'', ''https://t.me/+beta''] 5 False 0 =
     (Inr [\<lparr>link = ''https://t.me/alpha'', success = False,
        error = Some ''Rate limited. Wait 1000 seconds'',
        group_name = Some ''Alpha'', member_count = Some 42, join_time = Some 0\<rparr>,
       \<lparr>link = ''https://t.me/+beta'', success = True, error = None,
        group_name = Some ''Beta'', member_count = None, join_time = Some 4\<rparr>],
      5,
      [Call (GetEntity ''alpha''),
       Call (GetFullChannelRequest \<lparr>entity_id = 1, title = ''Alpha''\<rparr>),
       Call (JoinChannelRequest ''alpha''), Sleep 300,
       Call (ImportChatInviteRequest ''beta'')])"
  unfolding join_groups_batch_def
  by (simp add: alpha_join beta_join alpha_shown beta_shown pace_def example_sleep)

lemma example_run_random:
  "join_groups_batch example_env [''https://t.me/alpha'', ''https://t.me/+beta''] 5 True 0 =
     (Inr [\<lparr>link = ''https://t.me/alpha'', success = False,
        error = Some ''Rate limited. Wait 1000 seconds'',
        group_name = Some ''Alpha'', member_count = Some 42, join_time = Some 0\<rparr>,
       \<lparr>link = ''https://t.me/+beta'', success = True, error = None,
        group_name = Some ''Beta'', member_count = None, join_time = Some 4\<rparr>],
      5,
      [Call (GetEntity ''alpha''),
       Call (GetFullChannelRequest \<lparr>entity_id = 1, title = ''Alpha''\<rparr>),
       Call (JoinChannelRequest ''alpha''), Sleep 300,
       Call (ImportChatInviteRequest ''beta'')])"
  unfolding join_groups_batch_def
  by (simp add: alpha_join beta_join alpha_shown beta_shown pace_def example_sleep
      example_random)

lemma x_part: "channel_part_of ''https://t.me/x'' = ''x''"
  by (simp add: channel_part_of_def)

lemma x_public: "\<not> is_private ''https://t.me/x''"
  unfolding is_private_def x_part by code_simp

lemma x_join:
  "join_single_group example_env ''https://t.me/x'' w =
     (\<lparr>link = ''https://t.me/x'', success = False, error = Some ''bad [/peer] id'',
       group_name = None, member_count = None, join_time = Some w\<rparr>,
      Suc (Suc w), [Call (GetEntity ''x''), Call (JoinChannelRequest ''x'')])"
  unfolding join_single_group_def get_group_info_def get_group_info_body_def join_attempt_def
  by (simp add: x_part x_public example_env_def)

lemma x_line:
  "result_line
     \<lparr>link = ''https://t.me/x'', success = False, error = Some ''bad [/peer] id'',
      group_name = None, member_count = None, join_time = t\<rparr>
     ''https://t.me/x'' =
   ''[red]'' @ ballot_x @ '' bad [/peer] id[/red] https://t.me/x''"
  by (simp add: result_line_def truthy_def str_opt_def)

lemma x_line_refused:
  "example_markup_error (''[red]'' @ ballot_x @ '' bad [/peer] id[/red] https://t.me/x'')"
  by code_simp

lemma x_progress_rendered:
  "\<not> example_markup_error (progress_text (joining ''https://t.me/x''))"
  by code_simp

section \<open>The claims\<close>

subsection \<open>Results follow the targets\<close>

text \<open>
  Claim C1. When a batch run over \<open>N\<close> links completes, it returns exactly \<open>N\<close>
  results, and the \<open>i\<close>-th result is the outcome of \<open>join_single_group\<close> on the
  \<open>i\<close>-th link: it carries that link, whatever the outcome of any attempt, so nothing
  is reordered or skipped. The run completes when the console renders the line and the
  progress description of every link; otherwise \<open>MarkupError\<close> leaves
  \<open>join_groups_batch\<close> and no results are returned.
\<close>

theorem results_follow_targets:
  "(\<forall>results. fst (join_groups_batch E links b r w) = Inr results \<longrightarrow>
      length results = length links \<and>
      (\<forall>i<length links.
         link (results ! i) = links ! i \<and>
         (\<exists>w'. results ! i = fst (join_single_group E (links ! i) w')))) \<and>
   ((\<forall>l\<in>set links. \<forall>w0. \<not> console_print_raises E (joining l)
        (result_line (fst (join_single_group E l w0)) l)) \<longrightarrow>
      (\<exists>results. fst (join_groups_batch E links b r w) = Inr results))"
proof -
  have a: "length results = length links \<and>
      (\<forall>i<length links.
         link (results ! i) = links ! i \<and>
         (\<exists>w'. results ! i = fst (join_single_group E (links ! i) w')))"
    if run: "fst (join_groups_batch E links b r w) = Inr results" for results
  proof -
    from run have loop: "fst (batch_loop E b r 0 links ([], w, [])) = Inr results"
      unfolding join_groups_batch_def .
    from batch_loop_links [OF loop] have m: "map link results = links" .
    then have len: "length results = length links"
      by (metis length_map)
    have "link (results ! i) = links ! i" if "i < length links" for i
      using that m len by (metis nth_map)
    moreover have "\<exists>w'. results ! i = fst (join_single_group E (links ! i) w')"
      if "i < length links" for i
      using batch_results_nth [OF loop that] .
    ultimately show ?thesis
      using len by blast
  qed
  have c: "\<exists>results. fst (join_groups_batch E links b r w) = Inr results"
    if "\<forall>l\<in>set links. \<forall>w0. \<not> console_print_raises E (joining l)
        (result_line (fst (join_single_group E l w0)) l)"
    unfolding join_groups_batch_def using batch_loop_completes [OF that] .
  from a c show ?thesis
    by blast
qed

text \<open>
  The run over \<open>alpha\<close> and \<open>+beta\<close> completes: two results, the second for
  \<open>+beta\<close>.
\<close>

theorem results_follow_targets_witness:
  "(\<forall>w0. \<not> console_print_raises example_env (joining ''https://t.me/alpha'')
      (result_line (fst (join_single_group example_env ''https://t.me/alpha'' w0))
         ''https://t.me/alpha'')) \<and>
   (\<forall>w0. \<not> console_print_raises example_env (joining ''https://t.me/+beta'')
      (result_line (fst (join_single_group example_env ''https://t.me/+beta'' w0))
         ''https://t.me/+beta'')) \<and>
   (\<exists>results. fst (join_groups_batch example_env
      [''https://t.me/alpha'', ''https://t.me/+beta''] 5 False 0) = Inr results \<and>
     length results = 2 \<and> link (results ! 1) = ''https://t.me/+beta'')"
proof -
  have alpha: "\<forall>w0. \<not> console_print_raises example_env (joining ''https://t.me/alpha'')
      (result_line (fst (join_single_group example_env ''https://t.me/alpha'' w0))
         ''https://t.me/alpha'')"
    by (simp add: alpha_join alpha_shown)
  have beta: "\<forall>w0. \<not> console_print_raises example_env (joining ''https://t.me/+beta'')
      (result_line (fst (join_single_group example_env ''https://t.me/+beta'' w0))
         ''https://t.me/+beta'')"
    by (simp add: beta_join beta_shown)
  from alpha beta results_follow_targets
    [of example_env "[''https://t.me/alpha'', ''https://t.me/+beta'']" 5 False 0]
  obtain results where run: "fst (join_groups_batch example_env
      [''https://t.me/alpha'', ''https://t.me/+beta''] 5 False 0) = Inr results"
    by auto
  with results_follow_targets
    [of example_env "[''https://t.me/alpha'', ''https://t.me/+beta'']" 5 False 0]
  have "length results = 2 \<and> link (results ! 1) = ''https://t.me/+beta''"
    by simp
  with alpha beta run show ?thesis
    by blast
qed

subsection \<open>Classification of links\<close>

text \<open>
  Claim C2. A link is treated as a private invite exactly when it contains
  \<open>joinchat\<close> or its final segment starts with \<open>+\<close>, the final segment being the
  text after the last \<open>/\<close> (it holds no \<open>/\<close>, and what precedes it in the link is
  empty or ends in \<open>/\<close>). A private link is joined with \<open>ImportChatInviteRequest\<close>,
  every other link with \<open>JoinChannelRequest\<close> on the final segment as it is.
\<close>

theorem classify_link:
  "(is_private l \<longleftrightarrow>
      (\<exists>p q. l = p @ ''joinchat'' @ q) \<or> (\<exists>t. channel_part_of l = CHR ''+'' # t)) \<and>
   CHR ''/'' \<notin> set (channel_part_of l) \<and>
   (\<exists>p. l = p @ channel_part_of l \<and> (p = [] \<or> last p = CHR ''/'')) \<and>
   (is_private l \<longrightarrow>
      (\<exists>h. snd (snd (join_attempt E l gn w)) = [Call (ImportChatInviteRequest h)])) \<and>
   (\<not> is_private l \<longrightarrow>
      snd (snd (join_attempt E l gn w)) = [Call (JoinChannelRequest (channel_part_of l))])"
  using is_private_iff [of l] channel_part_no_slash [of l] channel_part_suffix [of l]
    join_attempt_events [of E l gn w]
  by simp

text \<open>The link \<open>+beta\<close> is private, \<open>alpha\<close> is public and joined under its name.\<close>

theorem classify_link_witness:
  "is_private ''https://t.me/+beta'' \<and>
   \<not> is_private ''https://t.me/alpha'' \<and>
   snd (snd (join_attempt example_env ''https://t.me/alpha'' None 0)) =
     [Call (JoinChannelRequest ''alpha'')]"
  using classify_link [of "''https://t.me/+beta''" example_env None 0]
    classify_link [of "''https://t.me/alpha''" example_env None 0]
  by (simp add: beta_part alpha_part alpha_public)

subsection \<open>The invite hash\<close>

text \<open>
  Claim C3. The claim says that only a leading \<open>+\<close> is removed from the final
  segment and that a \<open>+\<close> further inside is kept. The code calls
  \<open>channel_part.replace('+', '')\<close>, which removes every \<open>+\<close>, although its comment
  says "remove the + prefix": for \<open>https://t.me/+AB+CD\<close> the hash sent is \<open>ABCD\<close>,
  where the claim gives \<open>AB+CD\<close>. On \<open>https://t.me/+XYZ789\<close> code and claim agree.
\<close>

theorem invite_hash_drops_every_plus:
  "is_private ''https://t.me/+AB+CD'' \<and>
   channel_part_of ''https://t.me/+AB+CD'' = ''+AB+CD'' \<and>
   invite_hash_of ''https://t.me/+AB+CD'' = ''ABCD'' \<and>
   invite_hash_of ''https://t.me/+XYZ789'' = ''XYZ789''"
proof -
  have p: "channel_part_of ''https://t.me/+AB+CD'' = ''+AB+CD''"
    by (simp add: channel_part_of_def)
  have q: "channel_part_of ''https://t.me/+XYZ789'' = ''+XYZ789''"
    by (simp add: channel_part_of_def)
  show ?thesis
    unfolding invite_hash_filter is_private_def p q by simp
qed

subsection \<open>No wait before the first attempt\<close>

text \<open>
  Claim C4. Whatever the base interval and whether or not the intervals are
  randomized, the first iteration of a run waits for nothing: the pacing step at index
  0 leaves the world as it is and causes no event, and no sleep precedes the first join
  request of the run.
\<close>

theorem first_attempt_not_delayed:
  "pace E b r 0 w = (w, []) \<and>
   attempt_waits (snd (snd (join_groups_batch E (l # ls) b r w))) ! 0 = []"
  unfolding attempt_waits_def join_groups_batch_def waits_batch_head
  by (simp add: pace_first)

text \<open>No sleep before the first join of the randomized run over \<open>alpha\<close> and \<open>+beta\<close>.\<close>

theorem first_attempt_not_delayed_witness:
  "attempt_waits (snd (snd (join_groups_batch example_env
      [''https://t.me/alpha'', ''https://t.me/+beta''] 5 True 0))) ! 0 = []"
  using first_attempt_not_delayed
    [of example_env 5 True 0 "''https://t.me/alpha''" "[''https://t.me/+beta'']"]
  by simp

subsection \<open>The wait between attempts\<close>

text \<open>
  Claim C5, amended. The base interval is a number of minutes, and \<open>asyncio.sleep\<close>
  is given seconds: without randomization the run sleeps exactly once before every
  attempt after the first that it makes, for 60 times the base interval. A run makes
  at most one attempt for each link, and a run that completes makes them all.
\<close>

theorem fixed_wait_is_sixty_times_base:
  "length (attempt_waits (snd (snd (join_groups_batch E links b r w)))) \<le> length links \<and>
   (\<forall>results. fst (join_groups_batch E links b r w) = Inr results \<longrightarrow>
      length (attempt_waits (snd (snd (join_groups_batch E links b r w)))) = length links) \<and>
   (\<not> r \<longrightarrow> 0 < k \<longrightarrow>
      k < length (attempt_waits (snd (snd (join_groups_batch E links b r w)))) \<longrightarrow>
      attempt_waits (snd (snd (join_groups_batch E links b r w))) ! k = [b * 60])"
proof -
  have a: "length (attempt_waits (snd (snd (join_groups_batch E links b r w)))) \<le> length links"
    unfolding attempt_waits_def join_groups_batch_def by (rule waits_batch_length)
  have c: "length (attempt_waits (snd (snd (join_groups_batch E links b r w)))) = length links"
    if "fst (join_groups_batch E links b r w) = Inr results" for results
    using that unfolding attempt_waits_def join_groups_batch_def
    by (rule waits_batch_complete)
  have d: "attempt_waits (snd (snd (join_groups_batch E links b r w))) ! k = [b * 60]"
    if nr: "\<not> r" and pos: "0 < k"
      and k: "k < length (attempt_waits (snd (snd (join_groups_batch E links b r w))))"
  proof -
    from pos obtain k' where k': "k = Suc k'"
      by (cases k) auto
    from k a obtain l ls where links: "links = l # ls"
      by (cases links) auto
    let ?l1 = "fst (join_single_group E l (fst (pace E b r 0 w)))"
    let ?w2 = "fst (snd (join_single_group E l (fst (pace E b r 0 w))))"
    from k have ok: "\<not> console_print_raises E (joining l) (result_line ?l1 l)"
      unfolding attempt_waits_def join_groups_batch_def links waits_batch_head k'
      by (auto split: if_splits)
    with k have
      "k' < length (waits_from [] (snd (snd (batch_loop E b r (Suc 0) ls ([], ?w2, [])))))"
      unfolding attempt_waits_def join_groups_batch_def links waits_batch_head k'
      by simp
    from waits_batch_later [OF _ this] show ?thesis
      unfolding attempt_waits_def join_groups_batch_def links waits_batch_head k'
      using ok nr by simp
  qed
  from a c d show ?thesis
    by blast
qed

text \<open>With a base interval of 5, the sleep before the second attempt is 300 seconds.\<close>

theorem fixed_wait_is_sixty_times_base_witness:
  "length (attempt_waits (snd (snd (join_groups_batch example_env
      [''https://t.me/alpha'', ''https://t.me/+beta''] 5 False 0)))) = 2 \<and>
   attempt_waits (snd (snd (join_groups_batch example_env
      [''https://t.me/alpha'', ''https://t.me/+beta''] 5 False 0))) ! 1 = [300]"
  using fixed_wait_is_sixty_times_base
    [of example_env "[''https://t.me/alpha'', ''https://t.me/+beta'']" 5 False 0 1]
  by (simp add: example_run)

text \<open>
  Claim C5 as stated fails: with a base interval of 5 the sleep before the second
  attempt is not 5 seconds.
\<close>

theorem fixed_wait_is_base_counterexample:
  "attempt_waits (snd (snd (join_groups_batch example_env
      [''https://t.me/alpha'', ''https://t.me/+beta''] 5 False 0))) ! 1 \<noteq> [5]"
  unfolding example_run by (simp add: attempt_waits_def)

subsection \<open>Rate limits and the wait\<close>

text \<open>
  Claim C6, amended. The code has no override of the delay. Joining one group never
  sleeps, whatever its outcome: all its events are client calls. The sleep before
  every attempt after the first that the run makes is the one the pacing prescribes,
  60 times the base interval, scaled by a factor \<open>0.8 + random * 0.4\<close> when
  randomization is on; the seconds of a \<open>FloodWaitError\<close> do not enter it and only
  appear in the error text of the result, which is "Rate limited. Wait W seconds" with
  \<open>success = False\<close>. A run that completes makes an attempt for every link.
\<close>

theorem rate_limit_does_not_override_wait:
  "(get_group_info E l w0 = ((gn, mc), w1, evs1) \<longrightarrow>
    join_attempt E l gn w1 = (Inl (FloodWaitError W), w2, evs2) \<longrightarrow>
      \<not> success (fst (join_single_group E l w0)) \<and>
      error (fst (join_single_group E l w0)) =
        Some (''Rate limited. Wait '' @ str_int W @ '' seconds'')) \<and>
   (\<forall>e\<in>set (snd (snd (join_single_group E l w0))). \<exists>q. e = Call q) \<and>
   (\<forall>results. fst (join_groups_batch E links b r w) = Inr results \<longrightarrow>
      length (attempt_waits (snd (snd (join_groups_batch E links b r w)))) = length links) \<and>
   (Suc k < length (attempt_waits (snd (snd (join_groups_batch E links b r w)))) \<longrightarrow>
     (\<exists>w'. attempt_waits (snd (snd (join_groups_batch E links b r w))) ! Suc k =
        [(if r then b * (0.8 + fst (random_random E w') * 0.4) else b) * 60]))"
proof -
  have a: "\<exists>q. e = Call q" if "e \<in> set (snd (snd (join_single_group E l w0)))" for e
    using that get_group_info_events [of E l w0]
    unfolding join_single_group_events by auto
  have c: "length (attempt_waits (snd (snd (join_groups_batch E links b r w)))) = length links"
    if "fst (join_groups_batch E links b r w) = Inr results" for results
    using that unfolding attempt_waits_def join_groups_batch_def
    by (rule waits_batch_complete)
  have d: "\<exists>w'. attempt_waits (snd (snd (join_groups_batch E links b r w))) ! Suc k =
        [(if r then b * (0.8 + fst (random_random E w') * 0.4) else b) * 60]"
    if k: "Suc k < length (attempt_waits (snd (snd (join_groups_batch E links b r w))))"
  proof -
    have "length (attempt_waits (snd (snd (join_groups_batch E links b r w)))) \<le> length links"
      unfolding attempt_waits_def join_groups_batch_def by (rule waits_batch_length)
    with k obtain l' ls where links: "links = l' # ls"
      by (cases links) auto
    let ?l1 = "fst (join_single_group E l' (fst (pace E b r 0 w)))"
    let ?w2 = "fst (snd (join_single_group E l' (fst (pace E b r 0 w))))"
    from k have ok: "\<not> console_print_raises E (joining l') (result_line ?l1 l')"
      unfolding attempt_waits_def join_groups_batch_def links waits_batch_head
      by (auto split: if_splits)
    with k have
      "k < length (waits_from [] (snd (snd (batch_loop E b r (Suc 0) ls ([], ?w2, [])))))"
      unfolding attempt_waits_def join_groups_batch_def links waits_batch_head
      by simp
    from waits_batch_later [OF _ this] show ?thesis
      unfolding attempt_waits_def join_groups_batch_def links waits_batch_head
      using ok by simp
  qed
  have t: "\<not> success (fst (join_single_group E l w0)) \<and>
      error (fst (join_single_group E l w0)) =
        Some (''Rate limited. Wait '' @ str_int W @ '' seconds'')"
    if "get_group_info E l w0 = ((gn, mc), w1, evs1)"
      "join_attempt E l gn w1 = (Inl (FloodWaitError W), w2, evs2)"
    unfolding join_single_group_def Let_def using that by simp
  from t a c d show ?thesis
    by blast
qed

text \<open>
  With randomization, a base interval of 5 and the draw 1/2, the sleep after the rate
  limited attempt on \<open>alpha\<close> is 300 seconds.
\<close>

theorem rate_limit_does_not_override_wait_witness:
  "error (fst (join_single_group example_env ''https://t.me/alpha'' 0)) =
     Some ''Rate limited. Wait 1000 seconds'' \<and>
   attempt_waits (snd (snd (join_groups_batch example_env
      [''https://t.me/alpha'', ''https://t.me/+beta''] 5 True 0))) ! 1 = [300]"
  using rate_limit_does_not_override_wait
    [where E = example_env and l = "''https://t.me/alpha''" and ?w0.0 = 0
       and gn = "Some ''Alpha''" and mc = "Some 42" and ?w1.0 = 2
       and ?evs1.0 = "[Call (GetEntity ''alpha''),
          Call (GetFullChannelRequest \<lparr>entity_id = 1, title = ''Alpha''\<rparr>)]"
       and W = 1000 and ?w2.0 = 3 and ?evs2.0 = "[Call (JoinChannelRequest ''alpha'')]"
       and links = "[''https://t.me/alpha'', ''https://t.me/+beta'']"
       and b = 5 and r = True and w = 0 and k = 0]
  by (simp add: example_random example_run_random alpha_info alpha_attempt str_int_1000
      numeral_2_eq_2 numeral_3_eq_3)

text \<open>
  Claim C6 as stated fails: the attempt on \<open>alpha\<close> is rate limited with a wait of
  1000 seconds, and the run sleeps less than 1000 seconds before the next attempt.
\<close>

theorem rate_limit_wait_counterexample:
  "fst (join_groups_batch example_env
      [''https://t.me/alpha'', ''https://t.me/+beta''] 5 False 0) =
     Inr [\<lparr>link = ''https://t.me/alpha'', success = False,
        error = Some ''Rate limited. Wait 1000 seconds'',
        group_name = Some ''Alpha'', member_count = Some 42, join_time = Some 0\<rparr>,
       \<lparr>link = ''https://t.me/+beta'', success = True, error = None,
        group_name = Some ''Beta'', member_count = None, join_time = Some 4\<rparr>] \<and>
   sum_list (attempt_waits (snd (snd (join_groups_batch example_env
      [''https://t.me/alpha'', ''https://t.me/+beta''] 5 False 0))) ! 1) < 1000"
  unfolding example_run by (simp add: attempt_waits_def)

subsection \<open>Already a member\<close>

text \<open>
  Claim C7. When the join request of a link, of either kind, raises
  \<open>UserAlreadyParticipantError\<close>, the result has \<open>success = True\<close> and the error
  text "Already a member", with the metadata found before the request.
\<close>

theorem already_participant_is_success:
  assumes "get_group_info E l w = ((gn, mc), w1, evs1)"
    and "if is_private l
         then fst (client_ImportChatInviteRequest E (invite_hash_of l) w1) =
                Inl UserAlreadyParticipantError
         else fst (client_JoinChannelRequest E (channel_part_of l) w1) =
                Inl UserAlreadyParticipantError"
  shows "fst (join_single_group E l w) =
     \<lparr>link = l, success = True, error = Some ''Already a member'', group_name = gn,
      member_count = mc, join_time = Some (datetime_now E w)\<rparr>"
proof -
  from assms(2) have "fst (join_attempt E l gn w1) = Inl UserAlreadyParticipantError"
    unfolding join_attempt_def Let_def
    by (auto split: prod.splits sum.splits if_splits)
  then obtain w2 evs2 where "join_attempt E l gn w1 = (Inl UserAlreadyParticipantError, w2, evs2)"
    by (cases "join_attempt E l gn w1") auto
  then show ?thesis
    unfolding join_single_group_def Let_def
    by (simp add: assms(1))
qed

text \<open>The account is already in \<open>gamma\<close>: the result is a success.\<close>

theorem already_participant_is_success_witness:
  "fst (join_single_group example_env ''https://t.me/gamma'' 0) =
     \<lparr>link = ''https://t.me/gamma'', success = True, error = Some ''Already a member'',
      group_name = None, member_count = None, join_time = Some 0\<rparr>"
  using already_participant_is_success
    [of example_env "''https://t.me/gamma''" 0 None None "Suc 0" "[Call (GetEntity ''gamma'')]"]
  by (simp add: gamma_info gamma_public gamma_part gamma_request example_now)

subsection \<open>Failures stay with their target\<close>

text \<open>
  Claim C8. The handlers of \<open>join_single_group\<close> turn every exception of the join
  request into a result, yet a failure can still end the run: the loop prints the
  error text as console markup. Joining \<open>x\<close> fails with the text "bad [/peer] id";
  the result is built, but its line has a closing tag that matches no open tag,
  \<open>console.print\<close> raises \<open>MarkupError\<close>, no results are returned and the link
  \<open>+beta\<close> after it is never attempted.
\<close>

theorem failure_text_ends_run:
  "fst (join_single_group example_env ''https://t.me/x'' 0) =
     \<lparr>link = ''https://t.me/x'', success = False, error = Some ''bad [/peer] id'',
      group_name = None, member_count = None, join_time = Some 0\<rparr> \<and>
   \<not> example_markup_error (progress_text (joining ''https://t.me/x'')) \<and>
   example_markup_error
     (result_line (fst (join_single_group example_env ''https://t.me/x'' 0))
        ''https://t.me/x'') \<and>
   join_groups_batch example_env [''https://t.me/x'', ''https://t.me/+beta''] 5 False 0 =
     (Inl MarkupError, 2, [Call (GetEntity ''x''), Call (JoinChannelRequest ''x'')])"
proof -
  have "console_print_raises example_env (joining ''https://t.me/x'')
     (result_line
       \<lparr>link = ''https://t.me/x'', success = False, error = Some ''bad [/peer] id'',
        group_name = None, member_count = None, join_time = Some 0\<rparr>
       ''https://t.me/x'')"
    unfolding console_print_raises_def example_markup x_line
    using x_line_refused by simp
  then have "join_groups_batch example_env [''https://t.me/x'', ''https://t.me/+beta''] 5 False 0 =
     (Inl MarkupError, 2, [Call (GetEntity ''x''), Call (JoinChannelRequest ''x'')])"
    unfolding join_groups_batch_def
    by (simp add: x_join pace_def)
  then show ?thesis
    using x_line_refused x_progress_rendered
    by (simp add: x_join x_line)
qed

subsection \<open>Metadata lookup\<close>

text \<open>
  Claim C9. \<open>get_group_info\<close> always returns. For a private link it returns
  \<open>(None, None)\<close> without any call, the world unchanged. For a public link it returns
  \<open>(None, None)\<close> when \<open>get_entity\<close> raises and when \<open>GetFullChannelRequest\<close>
  raises. In every case \<open>join_single_group\<close> goes on to send its join request: the
  events of the lookup are followed by exactly that request.
\<close>

theorem metadata_lookup_never_blocks:
  "(is_private l \<longrightarrow> get_group_info E l w = ((None, None), w, [])) \<and>
   (\<not> is_private l \<longrightarrow> fst (client_get_entity E (channel_part_of l) w) = Inl e \<longrightarrow>
      fst (get_group_info E l w) = (None, None)) \<and>
   (\<not> is_private l \<longrightarrow> client_get_entity E (channel_part_of l) w = (Inr ent, w1) \<longrightarrow>
      fst (client_GetFullChannelRequest E ent w1) = Inl e \<longrightarrow>
      fst (get_group_info E l w) = (None, None)) \<and>
   (\<exists>q. is_join_request q \<and>
      snd (snd (join_single_group E l w)) = snd (snd (get_group_info E l w)) @ [Call q])"
proof -
  have a: "get_group_info E l w = ((None, None), w, [])" if "is_private l"
    unfolding get_group_info_def get_group_info_body_def Let_def using that by simp
  have b: "fst (get_group_info E l w) = (None, None)"
    if "\<not> is_private l" "fst (client_get_entity E (channel_part_of l) w) = Inl e"
    unfolding get_group_info_def get_group_info_body_def Let_def using that
    by (auto split: prod.splits sum.splits)
  have c: "fst (get_group_info E l w) = (None, None)"
    if "\<not> is_private l" "client_get_entity E (channel_part_of l) w = (Inr ent, w1)"
      "fst (client_GetFullChannelRequest E ent w1) = Inl e"
    unfolding get_group_info_def get_group_info_body_def Let_def using that
    by (auto split: prod.splits sum.splits)
  have d: "\<exists>q. is_join_request q \<and>
      snd (snd (join_single_group E l w)) = snd (snd (get_group_info E l w)) @ [Call q]"
    unfolding join_single_group_events by (cases "is_private l") simp_all
  from a b c d show ?thesis
    by blast
qed

text \<open>
  No metadata for the invite \<open>+beta\<close>, for the unknown \<open>gamma\<close>, and for \<open>delta\<close>,
  whose full description is refused.
\<close>

theorem metadata_lookup_never_blocks_witness:
  "get_group_info example_env ''https://t.me/+beta'' 0 = ((None, None), 0, []) \<and>
   fst (get_group_info example_env ''https://t.me/gamma'' 0) = (None, None) \<and>
   fst (get_group_info example_env ''https://t.me/delta'' 0) = (None, None)"
  using metadata_lookup_never_blocks
      [of "''https://t.me/+beta''" example_env 0 ChannelPrivateError
          "\<lparr>entity_id = 2, title = ''Delta''\<rparr>" 1]
    metadata_lookup_never_blocks
      [of "''https://t.me/gamma''" example_env 0 "OtherException ''not found''"
          "\<lparr>entity_id = 2, title = ''Delta''\<rparr>" 1]
    metadata_lookup_never_blocks
      [of "''https://t.me/delta''" example_env 0 ChannelPrivateError
          "\<lparr>entity_id = 2, title = ''Delta''\<rparr>" 1]
  by (simp add: beta_private gamma_public gamma_part gamma_entity delta_public delta_part
      delta_entity delta_full)

subsection \<open>The summary\<close>

text \<open>
  Claim C10. \<open>display_results_summary\<close> raises \<open>ZeroDivisionError\<close> on an empty
  list of results. On a list that is not empty it returns a summary whose successful
  and failed counts add up to the total, the number of results.
\<close>

theorem summary_needs_results:
  "display_results_summary [] = Inl ZeroDivisionError \<and>
   (results \<noteq> [] \<longrightarrow>
      (\<exists>s. display_results_summary results = Inr s \<and>
           successful s + failed s = total s \<and>
           total s = int (length results) \<and>
           successful s = int (length (filter success results))))"
  by (simp add: display_results_summary_def Let_def)

text \<open>One failure and one success: the counts are 1, 1 and 2.\<close>

theorem summary_needs_results_witness:
  "\<exists>s. display_results_summary
      [\<lparr>link = ''https://t.me/alpha'', success = False,
        error = Some ''Rate limited. Wait 1000 seconds'',
        group_name = Some ''Alpha'', member_count = Some 42, join_time = Some 0\<rparr>,
       \<lparr>link = ''https://t.me/+beta'', success = True, error = None,
        group_name = Some ''Beta'', member_count = None, join_time = Some 4\<rparr>] = Inr s \<and>
      successful s = 1 \<and> failed s = 1 \<and> total s = 2"
  using summary_needs_results
    [of "[\<lparr>link = ''https://t.me/alpha'', success = False,
        error = Some ''Rate limited. Wait 1000 seconds'',
        group_name = Some ''Alpha'', member_count = Some 42, join_time = Some 0\<rparr>,
       \<lparr>link = ''https://t.me/+beta'', success = True, error = None,
        group_name = Some ''Beta'', member_count = None, join_time = Some 4\<rparr>]"]
  by auto

end
